theory Spec2Isabelle
  imports Complex_Main "HOL-Library.AList"
begin

section \<open>Rate limiter of app/core/rate\_limiting.py\<close>

text \<open>
  The theory embeds the class \<open>RateLimiter\<close> of the backend template: its three
  strategies over a Redis server, the in-memory fallback, \<open>get_rate_limit_info\<close> and
  \<open>reset_rate_limit\<close>.

  Conventions of the embedding:
  \<^item> Python integers are \<open>int\<close>; Python and Lua floats are \<open>rat\<close>, with exact arithmetic
    (rounding of doubles is not modelled);
  \<open>int(x)\<close> on a float truncates towards zero (\<open>py_int\<close>);
  \<^item> \<open>int(time.time())\<close> is the argument \<open>now\<close> of every operation; the Redis server
    reads the same clock for key expiry;
  \<^item> an exception is a value \<open>Inl e\<close> of the result; the state after the call is
    returned beside it;
  \<^item> the Redis server is a list of keys with typed values and an optional expiry time;
    its commands follow the Redis command reference.
\<close>

subsection \<open>Configuration and results\<close>

datatype RateLimitStrategy = FIXED_WINDOW | SLIDING_WINDOW | TOKEN_BUCKET

fun strategy_value :: "RateLimitStrategy \<Rightarrow> string" where
  "strategy_value FIXED_WINDOW = ''fixed_window''"
| "strategy_value SLIDING_WINDOW = ''sliding_window''"
| "strategy_value TOKEN_BUCKET = ''token_bucket''"

record RateLimit =
  requests :: int
  window :: int
  strategy :: RateLimitStrategy

datatype error =
    RateLimitExceededException string int int int
      \<comment> \<open>message, retry\_after, limit, window\<close>
  | ConnectionError
  | ResponseError
  | ZeroDivisionError
  | TypeError

text \<open>The dataclass \<open>RateLimit\<close> has no \<open>__post_init__\<close>: its generated constructor
  stores the three fields and cannot raise.\<close>

definition RateLimit_init :: "int \<Rightarrow> int \<Rightarrow> RateLimitStrategy \<Rightarrow> error + RateLimit" where
  "RateLimit_init r w s = Inr \<lparr>requests = r, window = w, strategy = s\<rparr>"

record decision =
  exceeded :: bool
  limit :: int
  remaining :: int
  reset_time :: rat
  retry_after :: int
  strategy_used :: string

record info =
  info_limit :: int
  info_remaining :: int
  info_reset_time :: int
  current_requests :: int

subsection \<open>Python helpers\<close>

definition py_int :: "rat \<Rightarrow> int" where
  "py_int x = (if 0 \<le> x then \<lfloor>x\<rfloor> else \<lceil>x\<rceil>)"

function str_nat :: "nat \<Rightarrow> string" where
  "str_nat n = (if n < 10 then [''0123456789'' ! n]
                else str_nat (n div 10) @ [''0123456789'' ! (n mod 10)])"
  by pat_completeness auto
termination
  by (relation "measure id") auto

declare str_nat.simps [simp del]

definition str_int :: "int \<Rightarrow> string" where
  "str_int i = (if i < 0 then CHR ''-'' # str_nat (nat (- i)) else str_nat (nat i))"

subsection \<open>The Redis server\<close>

datatype rvalue =
    ZSet "(string \<times> int) list"  \<comment> \<open>sorted set: member and score\<close>
  | Counter int                  \<comment> \<open>string holding an integer\<close>
  | Bucket rat int               \<comment> \<open>hash with fields tokens and last\_refill\<close>

type_synonym entry = "rvalue \<times> int option"
type_synonym redis_store = "(string \<times> entry) list"

definition rget :: "redis_store \<Rightarrow> int \<Rightarrow> string \<Rightarrow> entry option" where
  "rget s now k =
     (case map_of s k of
        None \<Rightarrow> None
      | Some (v, ex) \<Rightarrow>
          (case ex of
             None \<Rightarrow> Some (v, ex)
           | Some t \<Rightarrow> if t \<le> now then None else Some (v, ex)))"

datatype reply = RInt int | RNil | RError

datatype command =
    ZREMRANGEBYSCORE string int int
  | ZCARD string
  | ZADD string string int
  | EXPIRE string int
  | GET string
  | INCRBY string int

definition zremrange :: "(string \<times> int) list \<Rightarrow> int \<Rightarrow> int \<Rightarrow> (string \<times> int) list" where
  "zremrange z lo hi = filter (\<lambda>(m, sc). \<not> (lo \<le> sc \<and> sc \<le> hi)) z"

fun run_cmd :: "int \<Rightarrow> command \<Rightarrow> redis_store \<Rightarrow> reply \<times> redis_store" where
  "run_cmd now (ZREMRANGEBYSCORE k lo hi) s =
     (case rget s now k of
        None \<Rightarrow> (RInt 0, s)
      | Some (ZSet z, ex) \<Rightarrow>
          (let z' = zremrange z lo hi
           in (RInt (int (length z) - int (length z')),
               if z' = [] then AList.delete k s else AList.update k (ZSet z', ex) s))
      | Some (_, ex) \<Rightarrow> (RError, s))"
| "run_cmd now (ZCARD k) s =
     (case rget s now k of
        None \<Rightarrow> (RInt 0, s)
      | Some (ZSet z, ex) \<Rightarrow> (RInt (int (length z)), s)
      | Some (_, ex) \<Rightarrow> (RError, s))"
| "run_cmd now (ZADD k m sc) s =
     (case rget s now k of
        None \<Rightarrow> (RInt 1, AList.update k (ZSet [(m, sc)], None) s)
      | Some (ZSet z, ex) \<Rightarrow>
          (RInt (if m \<in> fst ` set z then 0 else 1),
           AList.update k (ZSet (AList.update m sc z), ex) s)
      | Some (_, ex) \<Rightarrow> (RError, s))"
| "run_cmd now (EXPIRE k ttl) s =
     (case rget s now k of
        None \<Rightarrow> (RInt 0, s)
      | Some (v, ex) \<Rightarrow>
          if ttl \<le> 0 then (RInt 1, AList.delete k s)
          else (RInt 1, AList.update k (v, Some (now + ttl)) s))"
| "run_cmd now (GET k) s =
     (case rget s now k of
        None \<Rightarrow> (RNil, s)
      | Some (Counter n, ex) \<Rightarrow> (RInt n, s)
      | Some (_, ex) \<Rightarrow> (RError, s))"
| "run_cmd now (INCRBY k c) s =
     (case rget s now k of
        None \<Rightarrow> (RInt c, AList.update k (Counter c, None) s)
      | Some (Counter n, ex) \<Rightarrow> (RInt (n + c), AList.update k (Counter (n + c), ex) s)
      | Some (_, ex) \<Rightarrow> (RError, s))"


fun run_cmds :: "int \<Rightarrow> command list \<Rightarrow> redis_store \<Rightarrow> reply list \<times> redis_store" where
  "run_cmds now [] s = ([], s)"
| "run_cmds now (c # cs) s =
     (let (r, s') = run_cmd now c s; (rs, s'') = run_cmds now cs s' in (r # rs, s''))"

text \<open>\<open>pipe.execute()\<close> of a transactional pipeline: every queued command runs, a
  command that fails does not undo the others, and the client raises when a reply is an
  error. An unreachable server raises \<open>ConnectionError\<close> and runs nothing.\<close>

definition pipeline_execute ::
  "bool \<Rightarrow> int \<Rightarrow> command list \<Rightarrow> redis_store \<Rightarrow> (error + reply list) \<times> redis_store" where
  "pipeline_execute up now cs s =
     (if \<not> up then (Inl ConnectionError, s)
      else (let (rs, s') = run_cmds now cs s
            in if RError \<in> set rs then (Inl ResponseError, s') else (Inr rs, s')))"








text \<open>The Lua script of the token bucket, run atomically by the server. \<open>HMGET\<close> of a
  missing key gives two nils, so the bucket starts full with \<open>last_refill\<close> the current
  time. The reply converts the Lua number \<open>tokens\<close> to a Redis integer, which truncates
  it.\<close>

definition token_bucket_script ::
  "string \<Rightarrow> int \<Rightarrow> rat \<Rightarrow> int \<Rightarrow> int \<Rightarrow> redis_store \<Rightarrow> (error + (int \<times> int)) \<times> redis_store" where
  "token_bucket_script key capacity refill_rate cost current_time s =
     (let body = (\<lambda>tokens0 last_refill.
            let time_passed = current_time - last_refill;
                tokens_to_add = of_int time_passed * refill_rate;
                tokens1 = min (of_int capacity) (tokens0 + tokens_to_add);
                can_consume = (tokens1 \<ge> of_int cost);
                tokens = (if can_consume then tokens1 - of_int cost else tokens1)
            in (Inr (if can_consume then 1 else 0, py_int tokens),
                AList.update key (Bucket tokens current_time, Some (current_time + 3600)) s))
      in case rget s current_time key of
           None \<Rightarrow> body (of_int capacity) current_time
         | Some (Bucket tokens0 last_refill, ex) \<Rightarrow> body tokens0 last_refill
         | Some (_, ex) \<Rightarrow> (Inl ResponseError, s))"

definition eval_script ::
  "bool \<Rightarrow> string \<Rightarrow> int \<Rightarrow> rat \<Rightarrow> int \<Rightarrow> int \<Rightarrow> redis_store \<Rightarrow> (error + (int \<times> int)) \<times> redis_store" where
  "eval_script up key capacity refill_rate cost current_time s =
     (if \<not> up then (Inl ConnectionError, s)
      else token_bucket_script key capacity refill_rate cost current_time s)"

subsection \<open>The limiter\<close>

record user_data =
  ud_requests :: "int list"
  last_access :: int

text \<open>The state of one \<open>RateLimiter\<close> with its surroundings: whether the import of
  \<open>redis.asyncio\<close> succeeded, whether \<open>ConnectionPool.from_url\<close> accepts the URL (it
  opens no connection), whether the server answers, and the server's keys.\<close>

record system =
  redis_module :: bool
  url_ok :: bool
  server_up :: bool
  db :: redis_store
  default_limit :: RateLimit
  enable_burst :: bool
  burst_multiplier :: rat
  redis_pool :: bool
  memory_store :: "(string \<times> user_data) list"

definition RateLimiter_init :: "bool \<Rightarrow> bool \<Rightarrow> bool \<Rightarrow> redis_store \<Rightarrow> system" where
  "RateLimiter_init has_module good_url up store =
     \<lparr>redis_module = has_module, url_ok = good_url, server_up = up, db = store,
      default_limit = \<lparr>requests = 100, window = 60, strategy = SLIDING_WINDOW\<rparr>,
      enable_burst = True, burst_multiplier = 3 / 2,
      redis_pool = False, memory_store = []\<rparr>"

definition get_redis :: "system \<Rightarrow> bool \<times> system" where
  "get_redis st =
     (if \<not> redis_module st then (False, st)
      else if \<not> redis_pool st then
        (if url_ok st then (True, st\<lparr>redis_pool := True\<rparr>) else (False, st))
      else (True, st))"

definition sliding_window_redis ::
  "system \<Rightarrow> string \<Rightarrow> RateLimit \<Rightarrow> int \<Rightarrow> int \<Rightarrow> (error + decision) \<times> system" where
  "sliding_window_redis st identifier lmt cost current_time =
     (let key = ''rate_limit:sliding:'' @ identifier;
          window_start = current_time - window lmt
      in case pipeline_execute (server_up st) current_time
                [ZREMRANGEBYSCORE key 0 window_start,
                 ZCARD key,
                 ZADD key (str_int current_time @ '':'' @ str_int cost) current_time,
                 EXPIRE key (window lmt + 60)] (db st) of
           (Inl e, s') \<Rightarrow> (Inl e, st\<lparr>db := s'\<rparr>)
         | (Inr results, s') \<Rightarrow>
             (case results ! 1 of
                RInt n \<Rightarrow>
                  (let current = n + cost;
                       max_requests =
                         (if enable_burst st
                          then py_int (of_int (requests lmt) * burst_multiplier st)
                          else requests lmt);
                       exc = (current > max_requests)
                   in (Inr \<lparr>exceeded = exc,
                            limit = requests lmt,
                            remaining = max 0 (requests lmt - current),
                            reset_time = of_int (current_time + window lmt),
                            retry_after = (if exc then window lmt else 0),
                            strategy_used = strategy_value (strategy lmt)\<rparr>,
                       st\<lparr>db := s'\<rparr>))
              | _ \<Rightarrow> (Inl TypeError, st\<lparr>db := s'\<rparr>)))"

definition int_or_0 :: "reply \<Rightarrow> int" where
  "int_or_0 r = (case r of RInt n \<Rightarrow> n | _ \<Rightarrow> 0)"

definition fixed_window_redis ::
  "system \<Rightarrow> string \<Rightarrow> RateLimit \<Rightarrow> int \<Rightarrow> int \<Rightarrow> (error + decision) \<times> system" where
  "fixed_window_redis st identifier lmt cost current_time =
     (if window lmt = 0 then (Inl ZeroDivisionError, st)
      else
        (let window_start = (current_time div window lmt) * window lmt;
             key = ''rate_limit:fixed:'' @ identifier @ '':'' @ str_int window_start
         in case pipeline_execute (server_up st) current_time
                   [GET key, INCRBY key cost, EXPIRE key (window lmt + 60)] (db st) of
              (Inl e, s') \<Rightarrow> (Inl e, st\<lparr>db := s'\<rparr>)
            | (Inr results, s') \<Rightarrow>
                (let current = int_or_0 (results ! 1);
                     exc = (current > requests lmt);
                     reset = window_start + window lmt
                 in (Inr \<lparr>exceeded = exc,
                          limit = requests lmt,
                          remaining = max 0 (requests lmt - current),
                          reset_time = of_int reset,
                          retry_after = (if exc then reset - current_time else 0),
                          strategy_used = strategy_value (strategy lmt)\<rparr>,
                     st\<lparr>db := s'\<rparr>))))"

definition token_bucket_redis ::
  "system \<Rightarrow> string \<Rightarrow> RateLimit \<Rightarrow> int \<Rightarrow> int \<Rightarrow> (error + decision) \<times> system" where
  "token_bucket_redis st identifier lmt cost current_time =
     (let key = ''rate_limit:bucket:'' @ identifier
      in if window lmt = 0 then (Inl ZeroDivisionError, st)
         else
           (let refill_rate = (of_int (requests lmt) / of_int (window lmt) :: rat)
            in case eval_script (server_up st) key (requests lmt) refill_rate cost
                      current_time (db st) of
                 (Inl e, s') \<Rightarrow> (Inl e, st\<lparr>db := s'\<rparr>)
               | (Inr (flag, remaining_tokens), s') \<Rightarrow>
                   (let can_consume = (flag \<noteq> 0)
                    in if refill_rate = 0 then (Inl ZeroDivisionError, st\<lparr>db := s'\<rparr>)
                       else
                         (Inr \<lparr>exceeded = \<not> can_consume,
                               limit = requests lmt,
                               remaining = remaining_tokens,
                               reset_time =
                                 of_int current_time + of_int (requests lmt) / refill_rate,
                               retry_after =
                                 (if \<not> can_consume
                                  then py_int (of_int (cost - remaining_tokens) / refill_rate) + 1
                                  else 0),
                               strategy_used = strategy_value (strategy lmt)\<rparr>,
                          st\<lparr>db := s'\<rparr>))))"

definition check_redis_rate_limit ::
  "system \<Rightarrow> string \<Rightarrow> RateLimit \<Rightarrow> int \<Rightarrow> int \<Rightarrow> (error + decision) \<times> system" where
  "check_redis_rate_limit st identifier lmt cost current_time =
     (case strategy lmt of
        SLIDING_WINDOW \<Rightarrow> sliding_window_redis st identifier lmt cost current_time
      | FIXED_WINDOW \<Rightarrow> fixed_window_redis st identifier lmt cost current_time
      | TOKEN_BUCKET \<Rightarrow> token_bucket_redis st identifier lmt cost current_time)"

definition cleanup_memory_store :: "system \<Rightarrow> int \<Rightarrow> system" where
  "cleanup_memory_store st current_time =
     st\<lparr>memory_store :=
          filter (\<lambda>(identifier, data). \<not> last_access data < current_time - 3600)
            (memory_store st)\<rparr>"

definition check_memory_rate_limit ::
  "system \<Rightarrow> string \<Rightarrow> RateLimit \<Rightarrow> int \<Rightarrow> int \<Rightarrow> decision \<times> system" where
  "check_memory_rate_limit st identifier lmt cost current_time =
     (let st1 = (if length (memory_store st) > 1000
                 then cleanup_memory_store st current_time else st);
          ms1 = (if map_of (memory_store st1) identifier = None
                 then AList.update identifier
                        \<lparr>ud_requests = [], last_access = current_time\<rparr> (memory_store st1)
                 else memory_store st1);
          old = (case map_of ms1 identifier of
                   Some d \<Rightarrow> ud_requests d
                 | None \<Rightarrow> []);
          window_start = current_time - window lmt;
          kept = filter (\<lambda>req. req \<ge> window_start) old;
          current = int (length kept) + cost;
          exc = (current > requests lmt);
          new_requests = (if \<not> exc then kept @ replicate (nat cost) current_time else kept)
      in (\<lparr>exceeded = exc,
           limit = requests lmt,
           remaining = max 0 (requests lmt - current),
           reset_time = of_int (current_time + window lmt),
           retry_after = (if exc then window lmt else 0),
           strategy_used = ''memory_fallback''\<rparr>,
          st1\<lparr>memory_store :=
                AList.update identifier
                  \<lparr>ud_requests = new_requests, last_access = current_time\<rparr> ms1\<rparr>))"

definition check_rate_limit ::
  "system \<Rightarrow> string \<Rightarrow> RateLimit option \<Rightarrow> int \<Rightarrow> int \<Rightarrow> (error + decision) \<times> system" where
  "check_rate_limit st identifier limit_opt cost current_time =
     (let lmt = (case limit_opt of None \<Rightarrow> default_limit st | Some l \<Rightarrow> l);
          (redis_client, st0) = get_redis st;
          (rate_info, st') =
            (if redis_client
             then check_redis_rate_limit st0 identifier lmt cost current_time
             else (let (d, st1) = check_memory_rate_limit st0 identifier lmt cost current_time
                   in (Inr d, st1)))
      in case rate_info of
           Inl e \<Rightarrow> (Inl e, st')
         | Inr d \<Rightarrow>
             if exceeded d
             then (Inl (RateLimitExceededException (''Rate limit exceeded for '' @ identifier)
                          (retry_after d) (requests lmt) (window lmt)), st')
             else (Inr d, st'))"

definition get_rate_limit_info ::
  "system \<Rightarrow> string \<Rightarrow> RateLimit option \<Rightarrow> int \<Rightarrow> (error + info) \<times> system" where
  "get_rate_limit_info st identifier limit_opt current_time =
     (let lmt = (case limit_opt of None \<Rightarrow> default_limit st | Some l \<Rightarrow> l);
          (redis_client, st0) = get_redis st
      in if redis_client then
           (let key = ''rate_limit:sliding:'' @ identifier;
                window_start = current_time - window lmt
            in case pipeline_execute (server_up st0) current_time
                      [ZREMRANGEBYSCORE key 0 window_start, ZCARD key] (db st0) of
                 (Inl e, s') \<Rightarrow> (Inl e, st0\<lparr>db := s'\<rparr>)
               | (Inr results, s') \<Rightarrow>
                   (case results ! 1 of
                      RInt n \<Rightarrow>
                        (Inr \<lparr>info_limit = requests lmt,
                              info_remaining = max 0 (requests lmt - n),
                              info_reset_time = current_time + window lmt,
                              current_requests = n\<rparr>,
                         st0\<lparr>db := s'\<rparr>)
                    | _ \<Rightarrow> (Inl TypeError, st0\<lparr>db := s'\<rparr>)))
         else
           (case map_of (memory_store st0) identifier of
              None \<Rightarrow>
                (Inr \<lparr>info_limit = requests lmt,
                      info_remaining = requests lmt,
                      info_reset_time = current_time + window lmt,
                      current_requests = 0\<rparr>, st0)
            | Some d \<Rightarrow>
                (let window_start = current_time - window lmt;
                     n = int (length (filter (\<lambda>req. req \<ge> window_start) (ud_requests d)))
                 in (Inr \<lparr>info_limit = requests lmt,
                          info_remaining = max 0 (requests lmt - n),
                          info_reset_time = current_time + window lmt,
                          current_requests = n\<rparr>, st0))))"


subsection \<open>Callers\<close>


text \<open>A caller that makes consecutive \<open>get_rate_limit_info\<close> calls at the given times
  and drops the answers.\<close>

fun run_peeks :: "system \<Rightarrow> string \<Rightarrow> RateLimit \<Rightarrow> int list \<Rightarrow> system" where
  "run_peeks st identifier lmt [] = st"
| "run_peeks st identifier lmt (t # ts) =
     run_peeks (snd (get_rate_limit_info st identifier (Some lmt) t)) identifier lmt ts"


subsection \<open>What a later check can see\<close>

text \<open>An entry as a sliding-window check with window start \<open>ws\<close> counts it: the members
  with a score from 0 to \<open>ws\<close> are dropped, and a set left empty is no key at all.\<close>

definition pruned :: "int \<Rightarrow> entry option \<Rightarrow> entry option" where
  "pruned ws e =
     (case e of
        Some (ZSet z, ex) \<Rightarrow>
          if zremrange z 0 ws = [] then None else Some (ZSet (zremrange z 0 ws), ex)
      | _ \<Rightarrow> e)"

text \<open>Two states that a check at time \<open>t\<close> on the sliding-window key \<open>skey\<close> with window
  start \<open>ws\<close> cannot tell apart: the same settings and fallback store, a client in both
  or in neither, the same reading of every other key, and the same counted entry at
  \<open>skey\<close>.\<close>

definition same_for_check :: "string \<Rightarrow> int \<Rightarrow> int \<Rightarrow> system \<Rightarrow> system \<Rightarrow> bool" where
  "same_for_check skey ws t A B =
     (server_up A = server_up B \<and> enable_burst A = enable_burst B \<and>
      burst_multiplier A = burst_multiplier B \<and> memory_store A = memory_store B \<and>
      fst (get_redis A) = fst (get_redis B) \<and>
      (\<forall>k. k \<noteq> skey \<longrightarrow> rget (db A) t k = rget (db B) t k) \<and>
      pruned ws (rget (db A) t skey) = pruned ws (rget (db B) t skey))"

subsection \<open>Example states\<close>










section \<open>Auxiliary facts\<close>

subsection \<open>Reading the store after a write\<close>



subsection \<open>Commands touch one key\<close>








subsection \<open>The client and the dispatch\<close>


lemma check_rate_limit_redis:
  assumes "get_redis st = (True, st0)"
  shows "check_rate_limit st identifier (Some lmt) cost now =
     (case check_redis_rate_limit st0 identifier lmt cost now of
        (Inl e, st') \<Rightarrow> (Inl e, st')
      | (Inr d, st') \<Rightarrow>
          if exceeded d
          then (Inl (RateLimitExceededException (''Rate limit exceeded for '' @ identifier)
                       (retry_after d) (requests lmt) (window lmt)), st')
          else (Inr d, st'))"
  using assms by (simp add: check_rate_limit_def split: prod.splits sum.splits)

subsection \<open>Truncation\<close>




subsection \<open>One step of the token bucket\<close>




subsection \<open>Pipelines of the window strategies\<close>










subsection \<open>What a check changes and what a status query reads\<close>

lemma sliding_key_neq:
  "''rate_limit:sliding:'' @ i \<noteq> ''rate_limit:fixed:'' @ j"
  "''rate_limit:sliding:'' @ i \<noteq> ''rate_limit:bucket:'' @ j"
  by simp_all










subsection \<open>Key patterns and deletion\<close>








section \<open>Properties\<close>

subsection \<open>C1: the sliding-window scenario\<close>



subsection \<open>C2: retry\_after of the token bucket\<close>




subsection \<open>C3: an unreachable server\<close>

text \<open>
  C3 does not hold of the code: \<open>_get_redis\<close> returns no client only when the module is
  missing or the pool cannot be built. With the module present and a valid URL the client
  exists although the server is down, the pipeline raises, and nothing in
  \<open>check_rate_limit\<close> catches it: the caller sees the connection error and the fallback
  store is not consulted.
\<close>

theorem unreachable_server_error_reaches_caller:
  "check_rate_limit (RateLimiter_init True True False []) ''user_1'' None 1 0 =
     (Inl ConnectionError, (RateLimiter_init True True False [])\<lparr>redis_pool := True\<rparr>)"
  by code_simp

subsection \<open>C4: construction of a configuration\<close>

text \<open>
  C4, as stated, fails: a configuration with \<open>requests = 0\<close> and \<open>window = -5\<close> is
  constructed without any error.
\<close>

theorem invalid_configuration_is_constructed:
  "RateLimit_init 0 (- 5) SLIDING_WINDOW =
     Inr \<lparr>requests = 0, window = - 5, strategy = SLIDING_WINDOW\<rparr>"
  by (simp add: RateLimit_init_def)

text \<open>
  C4 (amended): constructing a configuration never fails; the constructor stores
  \<open>requests\<close>, \<open>window\<close> and \<open>strategy\<close> as given, whatever their values. A window of 0
  shows only at check time: on the Redis path a fixed-window or token-bucket check with
  \<open>window = 0\<close> raises \<open>ZeroDivisionError\<close> before the store is touched.
\<close>

theorem configuration_checked_only_at_use:
  "RateLimit_init r w s = Inr \<lparr>requests = r, window = w, strategy = s\<rparr> \<and>
   (fst (get_redis st) \<and> s \<noteq> SLIDING_WINDOW \<longrightarrow>
      check_rate_limit st identifier (Some \<lparr>requests = r, window = 0, strategy = s\<rparr>) cost now
        = (Inl ZeroDivisionError, snd (get_redis st)))"
proof (intro conjI impI)
  show "RateLimit_init r w s = Inr \<lparr>requests = r, window = w, strategy = s\<rparr>"
    by (simp add: RateLimit_init_def)
next
  assume a: "fst (get_redis st) \<and> s \<noteq> SLIDING_WINDOW"
  obtain c st0 where g: "get_redis st = (c, st0)" by fastforce
  with a have g': "get_redis st = (True, st0)" by simp
  show "check_rate_limit st identifier (Some \<lparr>requests = r, window = 0, strategy = s\<rparr>) cost now
        = (Inl ZeroDivisionError, snd (get_redis st))"
    using a g'
    by (cases s)
       (simp_all add: check_rate_limit_redis [OF g'] check_redis_rate_limit_def
          fixed_window_redis_def token_bucket_redis_def)
qed

theorem configuration_checked_only_at_use_witness:
  "RateLimit_init 5 0 FIXED_WINDOW = Inr \<lparr>requests = 5, window = 0, strategy = FIXED_WINDOW\<rparr> \<and>
   fst (get_redis (RateLimiter_init True True True [])) \<and>
   FIXED_WINDOW \<noteq> SLIDING_WINDOW \<and>
   fst (check_rate_limit (RateLimiter_init True True True []) ''user_1''
          (Some \<lparr>requests = 5, window = 0, strategy = FIXED_WINDOW\<rparr>) 1 0)
     = Inl ZeroDivisionError"
proof -
  have h: "fst (get_redis (RateLimiter_init True True True []))" by code_simp
  from configuration_checked_only_at_use
         [of 5 0 FIXED_WINDOW "RateLimiter_init True True True []" "''user_1''" 1 0] h
  show ?thesis by simp
qed

subsection \<open>C5: the entry of a denied sliding-window check\<close>




subsection \<open>C6: denial followed by a check of cost 0\<close>




subsection \<open>C8: the refill bound of the token bucket\<close>



subsection \<open>C9: the status query reads the sliding-window set only\<close>



subsection \<open>C10: what a reset deletes\<close>




end
